theory Spec2Isabelle
  imports Complex_Main
begin

section \<open>The completion pipeline of sgpt/handlers/handler.py\<close>

text \<open>
  A shallow embedding of \<^verbatim>\<open>sgpt/handlers/handler.py\<close>: the adapter
  \<^verbatim>\<open>_adapt_parameters_to_anthropic\<close>, \<^verbatim>\<open>Handler.handle_function_call\<close> and
  \<^verbatim>\<open>Handler.get_completion\<close>. Python exceptions are values of \<open>exn\<close>, a generator is
  the list of the fragments it yields together with the way it ended, the module-level
  dictionary \<^verbatim>\<open>additional_kwargs\<close> and the list object \<^verbatim>\<open>messages\<close> are passed
  and returned explicitly, and the vendor is a finite script of replies.
\<close>

subsection \<open>Exceptions\<close>

datatype exn =
    NameError
  | TypeError
  | AssertionError
  | KeyError
  | JSONDecodeError
  | KeyboardInterrupt
  | GeneratorExit
  | VendorError
  | OtherError string

subsection \<open>Messages\<close>

text \<open>
  The value under the key \<^verbatim>\<open>"content"\<close> of a message is a string, or, once the
  adapter has rewritten it, a list of typed blocks \<^verbatim>\<open>[{"type": t, "text": c}]\<close>.
  The adapter rewrites in place, so a message that passes through it twice carries a block
  whose text is itself a list of blocks.
\<close>

datatype content = Str string | Blocks "(string \<times> content) list"

text \<open>
  A message is a dictionary with the keys \<^verbatim>\<open>"role"\<close> and \<^verbatim>\<open>"content"\<close>, and, on
  the two messages that \<^verbatim>\<open>handle_function_call\<close> appends, \<^verbatim>\<open>"function_call"\<close>
  (a name and an argument string) or \<^verbatim>\<open>"name"\<close>.
\<close>

record message =
  msg_role :: string
  msg_content :: content
  msg_function_call :: "(string \<times> string) option"
  msg_name :: "string option"

type_synonym schema = "(string \<times> string) list"

subsection \<open>Keyword arguments\<close>

text \<open>
  \<^verbatim>\<open>additional_kwargs\<close> (lines 15-19, 68, 74, 144-146) only ever holds the keys
  \<^verbatim>\<open>timeout\<close>, \<^verbatim>\<open>base_url\<close>, \<^verbatim>\<open>tool_choice\<close>, \<^verbatim>\<open>tools\<close> and
  \<^verbatim>\<open>parallel_tool_calls\<close>; a field is \<open>None\<close> when the key is absent.
  \<^verbatim>\<open>base_url\<close> may be present with the value \<^verbatim>\<open>None\<close>.
\<close>

record additional_kwargs =
  ak_timeout :: "int option"
  ak_base_url :: "string option option"
  ak_tool_choice :: "string option"
  ak_tools :: "schema list option"
  ak_parallel_tool_calls :: "bool option"

text \<open>
  The keyword arguments of one call of \<^verbatim>\<open>completion\<close>. Temperature and top_p are only
  carried along and compared, never computed with.
\<close>

record kwargs =
  kw_model :: "string option"
  kw_temperature :: "rat option"
  kw_top_p :: "rat option"
  kw_messages :: "message list option"
  kw_stream :: "bool option"
  kw_system :: "content option"
  kw_additional :: additional_kwargs

text \<open>
  A positional argument, as far as the adapter inspects it: a dictionary (with the value of
  \<^verbatim>\<open>arg.get("role")\<close>), a list of messages, or anything else.
\<close>

datatype pyarg = PDict "string option" | PList "message list" | POther

subsection \<open>The adapter for the backend that takes the system message separately\<close>

text \<open>Lines 35-37: is some positional argument a dictionary whose role is "system"?\<close>

fun is_system_dict :: "pyarg \<Rightarrow> bool" where
  "is_system_dict (PDict r) = (r = Some ''system'')"
| "is_system_dict _ = False"

text \<open>
  Lines 42-46, one iteration: a non-empty list whose first element has a role becomes
  \<^verbatim>\<open>messages\<close>; every other argument is kept.
\<close>

fun scan_arg :: "pyarg \<Rightarrow> message list option \<times> pyarg list \<Rightarrow> message list option \<times> pyarg list" where
  "scan_arg (PList (m # ms)) (messages, kept) = (Some (m # ms), kept)"
| "scan_arg arg (messages, kept) = (messages, kept @ [arg])"

definition scan_args :: "pyarg list \<Rightarrow> message list option \<times> pyarg list" where
  "scan_args args = fold scan_arg args (None, [])"

text \<open>Lines 55-58: the content of a message becomes one block of type "text".\<close>

definition wrap_content :: "message \<Rightarrow> message" where
  "wrap_content m = m\<lparr>msg_content := Blocks [(''text'', msg_content m)]\<rparr>"

text \<open>
  Lines 49-59, the loop over \<^verbatim>\<open>messages\<close>. The state is
  \<open>(messages_without_system, system_message)\<close>.
\<close>

fun split_system :: "message list \<Rightarrow> message list \<times> message option \<Rightarrow> message list \<times> message option" where
  "split_system [] acc = acc"
| "split_system (m # ms) (without, sys) =
     (if msg_role m = ''system''
      then split_system ms (without, Some m)
      else split_system ms (without @ [wrap_content m], sys))"

text \<open>
  What the caller's list of messages holds after the loop: the dictionaries are the
  caller's own, and every one that is not a system message has been rewritten.
\<close>

definition mutated_messages :: "message list \<Rightarrow> message list" where
  "mutated_messages ms = map (\<lambda>m. if msg_role m = ''system'' then m else wrap_content m) ms"

text \<open>
  \<^verbatim>\<open>_adapt_parameters_to_anthropic\<close> (lines 32-63). The first component is what the
  function returns or raises, the second is the list of messages it found, as the loop has
  left it (\<open>None\<close> when the loop did not run).
\<close>

definition adapt_parameters_to_anthropic ::
  "pyarg list \<Rightarrow> kwargs \<Rightarrow> (exn + pyarg list \<times> kwargs) \<times> message list option" where
  "adapt_parameters_to_anthropic args kw =
     (if kw_system kw \<noteq> None then (Inr (args, kw), None)
      else if list_ex is_system_dict args then (Inr (args, kw), None)
      else
        let (messages, args_without_messages) =
              (case kw_messages kw of
                 None \<Rightarrow> scan_args args
               | Some ms \<Rightarrow> (Some ms, args))
        in case messages of
             None \<Rightarrow> (Inl TypeError, None)
           | Some ms \<Rightarrow>
               let (messages_without_system, system_message) = split_system ms ([], None)
               in case system_message of
                    None \<Rightarrow> (Inl TypeError, Some (mutated_messages ms))
                  | Some sm \<Rightarrow>
                      let kw' = kw\<lparr>kw_messages := Some messages_without_system,
                                   kw_system := Some (msg_content sm)\<rparr>
                      in case kw_model kw' of
                           None \<Rightarrow> (Inl KeyError, Some (mutated_messages ms))
                         | Some model \<Rightarrow>
                             if model = ''claude-3-5-sonnet-20241022''
                             then (Inr (args_without_messages, kw'), Some (mutated_messages ms))
                             else (Inl AssertionError, Some (mutated_messages ms)))"

subsection \<open>Streamed chunks\<close>

text \<open>
  One tool call of a delta: \<^verbatim>\<open>tool_call.function.name\<close> and
  \<^verbatim>\<open>tool_call.function.arguments\<close>, each a string or \<^verbatim>\<open>None\<close>.
\<close>

record tool_call =
  tc_name :: "string option"
  tc_arguments :: "string option"

text \<open>
  One chunk: \<^verbatim>\<open>chunk.choices[0].delta.tool_calls\<close>,
  \<^verbatim>\<open>chunk.choices[0].delta.content\<close> and \<^verbatim>\<open>chunk.choices[0].finish_reason\<close>.
\<close>

record chunk =
  ch_tool_calls :: "tool_call list option"
  ch_content :: "string option"
  ch_finish_reason :: "string option"

text \<open>
  What happens when the loop of line 158 asks for the next chunk: \<^verbatim>\<open>next(response)\<close>
  delivers a chunk or raises (a keyboard interrupt while the engine waits for the network,
  a transport error). The end of the list is the end of the stream. A consumer that stops
  iterating leaves the generator suspended at the \<^verbatim>\<open>yield\<close> of line 183, where closing
  it raises \<^verbatim>\<open>GeneratorExit\<close>: that is \<open>Raise GeneratorExit\<close> in the place of the
  chunk that is never asked for.
\<close>

datatype event = Chunk chunk | Raise exn

text \<open>
  What the vendor's client does when it is called: it raises, or it returns a stream.
\<close>

datatype vendor_reply = Fails exn | Streams "event list"

subsection \<open>The environment of the module\<close>

datatype backend = LiteLLM | Anthropic | OpenAI

datatype json =
    JNull | JBool bool | JNum int | JStr string | JArr "json list" | JObj "(string \<times> json) list"

text \<open>
  What the module reads from outside \<^verbatim>\<open>handler.py\<close>:
  \<^item> \<open>use_litellm\<close>: the binding of the global name \<^verbatim>\<open>use_litellm\<close> that line 163
    reads, \<open>None\<close> when the module binds no such name;
  \<^item> \<open>backend\<close>: the branch of lines 21-74 that defined \<^verbatim>\<open>completion\<close>;
  \<^item> \<open>role_SHELL\<close>, \<open>role_CODE\<close>, \<open>role_DESCRIBE_SHELL\<close>: the values of
    \<^verbatim>\<open>DefaultRoles.SHELL\<close>, \<^verbatim>\<open>DefaultRoles.CODE\<close> and
    \<^verbatim>\<open>DefaultRoles.DESCRIBE_SHELL\<close> (\<^verbatim>\<open>sgpt/role.py\<close>);
  \<^item> \<open>show_functions_output\<close>: \<^verbatim>\<open>cfg.get("SHOW_FUNCTIONS_OUTPUT") == "true"\<close>;
  \<^item> \<open>json_loads\<close>: \<^verbatim>\<open>json.loads\<close>, \<open>None\<close> when it raises;
  \<^item> \<open>call_function\<close>: \<^verbatim>\<open>get_function(name)(**dict_args)\<close> (\<^verbatim>\<open>sgpt/function.py\<close>
    and the user's functions), given the number of calls made before, the name and the
    parsed arguments: the text the function returns, or what the lookup, the expansion of
    the arguments or the function raises;
  \<^item> \<open>cache_length\<close>: \<^verbatim>\<open>int(cfg.get("CACHE_LENGTH"))\<close>;
  \<^item> \<open>fingerprint\<close>: the key of the response cache for the arguments of a call.
\<close>

record env =
  use_litellm :: "bool option"
  backend :: backend
  role_SHELL :: string
  role_CODE :: string
  role_DESCRIBE_SHELL :: string
  show_functions_output :: bool
  json_loads :: "string \<Rightarrow> json option"
  call_function :: "nat \<Rightarrow> string \<Rightarrow> json \<Rightarrow> exn + string"
  cache_length :: nat
  fingerprint :: "string \<times> rat \<times> rat \<times> message list \<times> schema list option \<Rightarrow> string"

text \<open>
  What a call changes outside its own frame: the module-level dictionary
  \<^verbatim>\<open>additional_kwargs\<close>, the keyword arguments of every call of \<^verbatim>\<open>completion\<close>
  (line 148) so far, the responses on which \<^verbatim>\<open>close\<close> was called (numbered like the
  calls of \<^verbatim>\<open>completion\<close>), the name and argument string of every function called so
  far (line 122), the stored entries of the response cache, oldest first, and the positional
  and keyword arguments of every call of the vendor's client (lines 24, 67, 73) so far.
\<close>

record state =
  st_additional_kwargs :: additional_kwargs
  st_completion_calls :: "kwargs list"
  st_closed :: "nat list"
  st_function_calls :: "(string \<times> string) list"
  st_cache :: "(string \<times> string list) list"
  st_dispatched :: "(pyarg list \<times> kwargs) list"

text \<open>
  What a generator has done when it ends: the fragments it yielded, in order, the exception
  it raised if it raised one, whether it or a call it made returned through the handler of
  \<^verbatim>\<open>KeyboardInterrupt\<close> (line 184), the list \<^verbatim>\<open>messages\<close> as it is then, and
  the state. The third field is a record for the statements below: a caller of the
  generator cannot see it, and no definition reads it.
\<close>

record outcome =
  fragments :: "string list"
  raised :: "exn option"
  interrupted :: bool
  messages_out :: "message list"
  state_out :: state

subsection \<open>handle_function_call\<close>

definition newline :: string where
  "newline = [CHR 0x0A]"

text \<open>The f-string of line 124.\<close>

definition function_output :: "string \<Rightarrow> string" where
  "function_output result =
     [CHR 0x60, CHR 0x60, CHR 0x60] @ ''text'' @ newline @ result @ newline
       @ [CHR 0x60, CHR 0x60, CHR 0x60] @ newline"

definition assistant_message :: "string \<Rightarrow> string \<Rightarrow> message" where
  "assistant_message name arguments =
     \<lparr>msg_role = ''assistant'', msg_content = Str '''',
      msg_function_call = Some (name, arguments), msg_name = None\<rparr>"

definition function_message :: "string \<Rightarrow> string \<Rightarrow> message" where
  "function_message name result =
     \<lparr>msg_role = ''function'', msg_content = Str result,
      msg_function_call = None, msg_name = Some name\<rparr>"

text \<open>
  \<^verbatim>\<open>Handler.handle_function_call\<close> (lines 101-125).
\<close>

definition handle_function_call ::
  "env \<Rightarrow> message list \<Rightarrow> string \<Rightarrow> string \<Rightarrow> state \<Rightarrow> outcome" where
  "handle_function_call e messages name arguments s =
     (let messages1 = messages @ [assistant_message name arguments];
          yielded = (if messages1 \<noteq> [] \<and> msg_role (last messages1) = ''assistant''
                     then [newline] else [])
      in case json_loads e arguments of
           None \<Rightarrow>
             \<lparr>fragments = yielded, raised = Some JSONDecodeError, interrupted = False,
              messages_out = messages1, state_out = s\<rparr>
         | Some dict_args \<Rightarrow>
             let s1 = s\<lparr>st_function_calls := st_function_calls s @ [(name, arguments)]\<rparr>
             in case call_function e (length (st_function_calls s)) name dict_args of
                  Inl err \<Rightarrow>
                    \<lparr>fragments = yielded, raised = Some err, interrupted = False,
                     messages_out = messages1, state_out = s1\<rparr>
                | Inr result \<Rightarrow>
                    \<lparr>fragments = yielded @ (if show_functions_output e
                                             then [function_output result] else []),
                     raised = None, interrupted = False,
                     messages_out = messages1 @ [function_message name result],
                     state_out = s1\<rparr>)"

subsection \<open>The loop over the chunks\<close>

text \<open>
  Lines 166-170, one tool call: a name that is neither \<^verbatim>\<open>None\<close> nor empty replaces
  \<^verbatim>\<open>name\<close>; arguments that are neither \<^verbatim>\<open>None\<close> nor empty are appended to
  \<^verbatim>\<open>arguments\<close>.
\<close>

definition take_tool_call :: "tool_call \<Rightarrow> string \<times> string \<Rightarrow> string \<times> string" where
  "take_tool_call tc = (\<lambda>(name, arguments).
     (case tc_name tc of
        None \<Rightarrow> name
      | Some n \<Rightarrow> if n \<noteq> [] then n else name,
      case tc_arguments tc of
        None \<Rightarrow> arguments
      | Some a \<Rightarrow> if a \<noteq> [] then arguments @ a else arguments))"

text \<open>Lines 165-170: nothing happens when \<^verbatim>\<open>tool_calls\<close> is \<^verbatim>\<open>None\<close> or empty.\<close>

definition take_tool_calls :: "chunk \<Rightarrow> string \<times> string \<Rightarrow> string \<times> string" where
  "take_tool_calls c acc =
     (case ch_tool_calls c of
        None \<Rightarrow> acc
      | Some tcs \<Rightarrow> fold take_tool_call tcs acc)"

text \<open>Line 183: \<^verbatim>\<open>delta.content or ""\<close>.\<close>

definition text_of :: "chunk \<Rightarrow> string" where
  "text_of c = (case ch_content c of None \<Rightarrow> [] | Some t \<Rightarrow> t)"

text \<open>
  How the \<^verbatim>\<open>for\<close> loop of lines 158-183 ends, before line 172 runs: the stream is
  exhausted, something raised, or a chunk reported the finish reason
  \<^verbatim>\<open>"tool_calls"\<close> with \<^verbatim>\<open>name\<close> and \<^verbatim>\<open>arguments\<close> as they are then.
\<close>

datatype loop_exit = Exhausted | Raised exn | ToolCalls string string

text \<open>
  The loop: the fragments yielded at line 183 and the way the loop ends. Reading the
  global \<^verbatim>\<open>use_litellm\<close> (line 163) raises \<^verbatim>\<open>NameError\<close> when the name is not
  bound; both branches of the conditional read the same field of the delta.
\<close>

fun stream_loop :: "bool option \<Rightarrow> event list \<Rightarrow> string \<times> string \<Rightarrow> string list \<times> loop_exit" where
  "stream_loop ul [] acc = ([], Exhausted)"
| "stream_loop ul (Raise err # evs) acc = ([], Raised err)"
| "stream_loop ul (Chunk c # evs) acc =
     (case ul of
        None \<Rightarrow> ([], Raised NameError)
      | Some _ \<Rightarrow>
          let acc' = take_tool_calls c acc
          in if ch_finish_reason c = Some ''tool_calls''
             then ([], ToolCalls (fst acc') (snd acc'))
             else let (frags, ex) = stream_loop ul evs acc'
                  in (text_of c # frags, ex))"

subsection \<open>The response cache\<close>

text \<open>Oldest entries go first until at most \<open>n\<close> are left.\<close>

definition evict :: "nat \<Rightarrow> 'a list \<Rightarrow> 'a list" where
  "evict n entries = drop (length entries - n) entries"

text \<open>The arguments of \<^verbatim>\<open>get_completion\<close> other than \<^verbatim>\<open>messages\<close> and \<^verbatim>\<open>caching\<close>.\<close>

record call_args =
  ca_model :: string
  ca_temperature :: rat
  ca_top_p :: rat
  ca_functions :: "schema list option"

text \<open>
  Modelled from the spec: the decorator \<^verbatim>\<open>Cache.__call__\<close> of \<^verbatim>\<open>sgpt/cache.py\<close>,
  which is not among the sources. Section 4.2 of the specification: with
  \<^verbatim>\<open>caching=false\<close> the cache is bypassed, with no read and no write; with
  \<^verbatim>\<open>caching=true\<close> the fingerprint is computed from all arguments but
  \<^verbatim>\<open>caching\<close>, an existing entry is replayed without calling the wrapped function, and
  otherwise the wrapped function runs and its fragments are committed as a new entry, only
  if it was exhausted without interruption, before the oldest entries beyond the capacity
  are evicted. What the decorator can see of the wrapped generator is whether it reached
  its end: a generator that raised, or that the consumer closed, did not; one that caught
  an interrupt and returned did.
\<close>

definition Cache_call ::
  "env \<Rightarrow> bool \<Rightarrow> call_args \<Rightarrow> message list \<Rightarrow> (state \<Rightarrow> outcome) \<Rightarrow> state \<Rightarrow> outcome" where
  "Cache_call e caching a messages func s =
     (if \<not> caching then func s
      else
        let key = fingerprint e
                    (ca_model a, ca_temperature a, ca_top_p a, messages, ca_functions a)
        in case map_of (st_cache s) key of
             Some stored \<Rightarrow>
               \<lparr>fragments = stored, raised = None, interrupted = False,
                messages_out = messages, state_out = s\<rparr>
           | None \<Rightarrow>
               let r = func s
               in if raised r = None
                  then r\<lparr>state_out := (state_out r)
                         \<lparr>st_cache := evict (cache_length e)
                                        (st_cache (state_out r) @ [(key, fragments r)])\<rparr>\<rparr>
                  else r)"

subsection \<open>get_completion\<close>

text \<open>Lines 137-141: three roles set \<^verbatim>\<open>functions\<close> to \<^verbatim>\<open>None\<close>.\<close>

definition effective_functions :: "env \<Rightarrow> string \<Rightarrow> schema list option \<Rightarrow> schema list option" where
  "effective_functions e role_name functions =
     (let is_shell_role = (role_name = role_SHELL e);
          is_code_role = (role_name = role_CODE e);
          is_dsc_shell_role = (role_name = role_DESCRIBE_SHELL e)
      in if is_shell_role \<or> is_code_role \<or> is_dsc_shell_role then None else functions)"

text \<open>
  Lines 143-146: a list of functions that is neither \<^verbatim>\<open>None\<close> nor empty is written
  into the module-level dictionary, which keeps what it held otherwise.
\<close>

fun set_tool_kwargs :: "schema list option \<Rightarrow> additional_kwargs \<Rightarrow> additional_kwargs" where
  "set_tool_kwargs (Some (f # fs)) ak =
     ak\<lparr>ak_tool_choice := Some ''auto'', ak_tools := Some (f # fs),
        ak_parallel_tool_calls := Some False\<rparr>"
| "set_tool_kwargs _ ak = ak"

text \<open>Lines 148-155: the keyword arguments of the call of \<^verbatim>\<open>completion\<close>.\<close>

definition completion_kwargs :: "call_args \<Rightarrow> message list \<Rightarrow> additional_kwargs \<Rightarrow> kwargs" where
  "completion_kwargs a messages ak =
     \<lparr>kw_model = Some (ca_model a), kw_temperature = Some (ca_temperature a),
      kw_top_p = Some (ca_top_p a), kw_messages = Some messages, kw_stream = Some True,
      kw_system = None, kw_additional = ak\<rparr>"

text \<open>
  What \<^verbatim>\<open>completion\<close> does with its keyword arguments before it calls the client: with
  the backend that takes the system message separately, line 66 passes them through the
  adapter (there are no positional arguments); the other two backends (lines 24 and 73)
  are the client itself.
\<close>

definition adapted :: "env \<Rightarrow> kwargs \<Rightarrow> (exn + pyarg list \<times> kwargs) \<times> message list option" where
  "adapted e kw =
     (case backend e of
        Anthropic \<Rightarrow> adapt_parameters_to_anthropic [] kw
      | _ \<Rightarrow> (Inr ([], kw), None))"

text \<open>
  \<^verbatim>\<open>completion\<close> (lines 24, 65-67, 73): the client is called, with what the adapter
  returned, only when the adapter returns. The second component is the caller's list of
  messages afterwards.
\<close>

definition completion ::
  "env \<Rightarrow> kwargs \<Rightarrow> message list \<Rightarrow> vendor_reply \<Rightarrow> (exn + event list) \<times> message list" where
  "completion e kw messages reply =
     (let client = (case reply of Fails err \<Rightarrow> Inl err | Streams evs \<Rightarrow> Inr evs)
      in case adapted e kw of
           (Inl err, m) \<Rightarrow> (Inl err, case m of None \<Rightarrow> messages | Some ms \<Rightarrow> ms)
         | (Inr _, m) \<Rightarrow> (client, case m of None \<Rightarrow> messages | Some ms \<Rightarrow> ms))"

text \<open>
  Line 184-185: a \<^verbatim>\<open>KeyboardInterrupt\<close> raised inside the \<^verbatim>\<open>try\<close> block closes the
  response, and the generator returns.
\<close>

definition except_KeyboardInterrupt :: "nat \<Rightarrow> outcome \<Rightarrow> outcome" where
  "except_KeyboardInterrupt response r =
     (if raised r = Some KeyboardInterrupt
      then r\<lparr>raised := None, interrupted := True,
             state_out := (state_out r)\<lparr>st_closed := st_closed (state_out r) @ [response]\<rparr>\<rparr>
      else r)"

text \<open>
  The body of the \<^verbatim>\<open>try\<close> block (lines 158-183). \<open>recurse\<close> is the call of lines
  173-180, given the list of messages and the state at that point.
\<close>

definition try_block ::
  "env \<Rightarrow> event list \<Rightarrow> message list \<Rightarrow> state \<Rightarrow> (message list \<Rightarrow> state \<Rightarrow> outcome) \<Rightarrow> outcome" where
  "try_block e evs messages s recurse =
     (case stream_loop (use_litellm e) evs ([], []) of
        (frags, Exhausted) \<Rightarrow>
          \<lparr>fragments = frags, raised = None, interrupted = False,
           messages_out = messages, state_out = s\<rparr>
      | (frags, Raised err) \<Rightarrow>
          \<lparr>fragments = frags, raised = Some err, interrupted = False,
           messages_out = messages, state_out = s\<rparr>
      | (frags, ToolCalls name arguments) \<Rightarrow>
          let h = handle_function_call e messages name arguments s
          in if raised h \<noteq> None then h\<lparr>fragments := frags @ fragments h\<rparr>
             else let r = recurse (messages_out h) (state_out h)
                  in r\<lparr>fragments := frags @ fragments h @ fragments r\<rparr>)"

text \<open>
  Lines 136-155: the keyword arguments with which \<^verbatim>\<open>completion\<close> is called, and the
  state once it has been called: the client has been called, with what the adapter
  returned, if the adapter returned.
\<close>

definition request_kwargs :: "env \<Rightarrow> string \<Rightarrow> call_args \<Rightarrow> message list \<Rightarrow> state \<Rightarrow> kwargs" where
  "request_kwargs e role_name a messages s =
     (let functions = effective_functions e role_name (ca_functions a);
          ak = set_tool_kwargs functions (st_additional_kwargs s)
      in completion_kwargs a messages ak)"

definition requested :: "env \<Rightarrow> string \<Rightarrow> call_args \<Rightarrow> message list \<Rightarrow> state \<Rightarrow> state" where
  "requested e role_name a messages s =
     s\<lparr>st_additional_kwargs :=
         set_tool_kwargs (effective_functions e role_name (ca_functions a))
           (st_additional_kwargs s),
       st_completion_calls :=
         st_completion_calls s @ [request_kwargs e role_name a messages s],
       st_dispatched :=
         st_dispatched s @
           (case fst (adapted e (request_kwargs e role_name a messages s)) of
              Inl err \<Rightarrow> []
            | Inr request \<Rightarrow> [request])\<rparr>"

text \<open>
  The body of \<^verbatim>\<open>get_completion\<close> (lines 136-185) for one reply of the vendor. The
  call of \<^verbatim>\<open>completion\<close> is outside the \<^verbatim>\<open>try\<close> block. \<open>recurse\<close> is what
  \<^verbatim>\<open>self.get_completion\<close> does at lines 173-180, where \<^verbatim>\<open>functions\<close> is the local
  variable of line 141.
\<close>

definition get_completion_body ::
  "env \<Rightarrow> string \<Rightarrow> call_args \<Rightarrow> message list \<Rightarrow> vendor_reply
     \<Rightarrow> (call_args \<Rightarrow> message list \<Rightarrow> state \<Rightarrow> outcome) \<Rightarrow> state \<Rightarrow> outcome" where
  "get_completion_body e role_name a messages reply recurse s =
     (let functions = effective_functions e role_name (ca_functions a);
          kw = request_kwargs e role_name a messages s;
          response = length (st_completion_calls s);
          s1 = requested e role_name a messages s
      in case completion e kw messages reply of
           (Inl err, messages1) \<Rightarrow>
             \<lparr>fragments = [], raised = Some err, interrupted = False,
              messages_out = messages1, state_out = s1\<rparr>
         | (Inr evs, messages1) \<Rightarrow>
             except_KeyboardInterrupt response
               (try_block e evs messages1 s1 (recurse (a\<lparr>ca_functions := functions\<rparr>))))"

text \<open>What the client does when the script holds no reply: it raises.\<close>

definition no_reply :: "call_args \<Rightarrow> message list \<Rightarrow> state \<Rightarrow> outcome" where
  "no_reply a messages s =
     \<lparr>fragments = [], raised = Some VendorError, interrupted = False,
      messages_out = messages, state_out = s\<rparr>"

text \<open>
  The function \<^verbatim>\<open>get_completion\<close> of lines 128-185 as written, before the decorator
  of line 127 is applied, for a handler whose role has the name \<open>role_name\<close>. The
  vendor's replies to the successive calls of the client are the script. The recursive
  call of lines 173-180 goes through the decorated method, with \<^verbatim>\<open>caching=False\<close>.
\<close>

fun get_completion_undecorated ::
  "env \<Rightarrow> string \<Rightarrow> call_args \<Rightarrow> message list \<Rightarrow> vendor_reply list \<Rightarrow> state \<Rightarrow> outcome" where
  "get_completion_undecorated e role_name a messages [] s =
     get_completion_body e role_name a messages (Fails VendorError) no_reply s"
| "get_completion_undecorated e role_name a messages (reply # script) s =
     get_completion_body e role_name a messages reply
       (\<lambda>a' messages' s'.
          Cache_call e False a' messages'
            (\<lambda>s''. get_completion_undecorated e role_name a' messages' script s'') s') s"

text \<open>\<^verbatim>\<open>Handler.get_completion\<close>, the decorated method (lines 127-185).\<close>

definition get_completion ::
  "env \<Rightarrow> string \<Rightarrow> bool \<Rightarrow> call_args \<Rightarrow> message list \<Rightarrow> vendor_reply list \<Rightarrow> state \<Rightarrow> outcome" where
  "get_completion e role_name caching a messages script s =
     Cache_call e caching a messages
       (get_completion_undecorated e role_name a messages script) s"

subsection \<open>Example values\<close>

definition system_msg :: "string \<Rightarrow> message" where
  "system_msg t = \<lparr>msg_role = ''system'', msg_content = Str t,
                   msg_function_call = None, msg_name = None\<rparr>"

definition user_msg :: "string \<Rightarrow> message" where
  "user_msg t = \<lparr>msg_role = ''user'', msg_content = Str t,
                 msg_function_call = None, msg_name = None\<rparr>"

definition no_kwargs :: additional_kwargs where
  "no_kwargs = \<lparr>ak_timeout = None, ak_base_url = None, ak_tool_choice = None,
                ak_tools = None, ak_parallel_tool_calls = None\<rparr>"

definition claude_args :: call_args where
  "claude_args = \<lparr>ca_model = ''claude-3-5-sonnet-20241022'', ca_temperature = 0,
                  ca_top_p = 1, ca_functions = None\<rparr>"

definition gpt_args :: call_args where
  "gpt_args = \<lparr>ca_model = ''gpt-4o'', ca_temperature = 0, ca_top_p = 1,
               ca_functions = None\<rparr>"

subsection \<open>What a run leaves unchanged\<close>

text \<open>
  Between two states: the module-level dictionary is \<open>ak\<close> at the end, the cache is
  untouched, \<^verbatim>\<open>completion\<close> was called some more times, each time with \<open>ak\<close> as
  additional keyword arguments, and at most \<open>k\<close> more functions were called than
  \<^verbatim>\<open>completion\<close> was.
\<close>

definition frame :: "additional_kwargs \<Rightarrow> nat \<Rightarrow> state \<Rightarrow> state \<Rightarrow> bool" where
  "frame ak k s s' \<longleftrightarrow>
     st_additional_kwargs s' = ak \<and> st_cache s' = st_cache s \<and>
     (\<exists>more. st_completion_calls s' = st_completion_calls s @ more \<and>
        (\<forall>kw\<in>set more. kw_additional kw = ak) \<and>
        length (st_function_calls s') \<le> length (st_function_calls s) + length more + k)"

text \<open>
  The same for one run of \<^verbatim>\<open>get_completion\<close> from the state \<open>s\<close>: the first new call
  of \<^verbatim>\<open>completion\<close> is the one of line 148.
\<close>

definition run_frame :: "env \<Rightarrow> string \<Rightarrow> call_args \<Rightarrow> message list \<Rightarrow> state \<Rightarrow> state \<Rightarrow> bool" where
  "run_frame e role_name a messages s s' \<longleftrightarrow>
     st_additional_kwargs s' =
       set_tool_kwargs (effective_functions e role_name (ca_functions a)) (st_additional_kwargs s) \<and>
     st_cache s' = st_cache s \<and>
     (\<exists>more. st_completion_calls s' =
               st_completion_calls s @ request_kwargs e role_name a messages s # more \<and>
        (\<forall>kw\<in>set more. kw_additional kw = st_additional_kwargs s') \<and>
        length (st_function_calls s') \<le> length (st_function_calls s) + Suc (length more))"

subsection \<open>What the loop is meant to collect\<close>

text \<open>
  The tool calls of a sequence of chunks in the order of arrival, the concatenation of the
  argument fragments of a sequence of tool calls, the name fragments that are neither
  \<^verbatim>\<open>None\<close> nor empty, and the last of them (the empty string when there is none).
\<close>

definition tool_calls_of :: "chunk list \<Rightarrow> tool_call list" where
  "tool_calls_of cs =
     concat (map (\<lambda>c. case ch_tool_calls c of None \<Rightarrow> [] | Some tcs \<Rightarrow> tcs) cs)"

definition joined_arguments :: "tool_call list \<Rightarrow> string" where
  "joined_arguments tcs =
     concat (map (\<lambda>tc. case tc_arguments tc of None \<Rightarrow> [] | Some a \<Rightarrow> a) tcs)"

definition given_names :: "tool_call list \<Rightarrow> string list" where
  "given_names tcs =
     filter (\<lambda>n. n \<noteq> [])
       (concat (map (\<lambda>tc. case tc_name tc of None \<Rightarrow> [] | Some n \<Rightarrow> [n]) tcs))"

definition last_name :: "tool_call list \<Rightarrow> string" where
  "last_name tcs = (if given_names tcs = [] then [] else last (given_names tcs))"

subsection \<open>Example environments and chunks\<close>

text \<open>The argument string \<^verbatim>\<open>{"path": "."}\<close>.\<close>

definition list_dir_arguments :: string where
  "list_dir_arguments =
     ''{'' @ [CHR 0x22] @ ''path'' @ [CHR 0x22] @ '': '' @ [CHR 0x22] @ ''.'' @ [CHR 0x22] @ ''}''"

definition example_json_loads :: "string \<Rightarrow> json option" where
  "example_json_loads t =
     (if t = list_dir_arguments then Some (JObj [(''path'', JStr ''.'')])
      else if t = ''{}'' then Some (JObj [])
      else None)"

definition example_call_function :: "nat \<Rightarrow> string \<Rightarrow> json \<Rightarrow> exn + string" where
  "example_call_function n name dict_args =
     (if name = ''list_dir'' then Inr ''a.txt'' else Inl (OtherError ''not found''))"

text \<open>
  The module as it is written: line 14, which would bind \<^verbatim>\<open>use_litellm\<close>, is a
  comment, and nothing else binds the name.
\<close>

definition module_env :: env where
  "module_env =
     \<lparr>use_litellm = None, backend = OpenAI,
      role_SHELL = ''Shell Command Generator'', role_CODE = ''Code Generator'',
      role_DESCRIBE_SHELL = ''Shell Command Descriptor'',
      show_functions_output = False,
      json_loads = example_json_loads, call_function = example_call_function,
      cache_length = 100, fingerprint = (\<lambda>_. ''key'')\<rparr>"

text \<open>The same module with the global \<^verbatim>\<open>use_litellm\<close> bound to \<^verbatim>\<open>False\<close>.\<close>

definition bound_env :: env where
  "bound_env = module_env\<lparr>use_litellm := Some False\<rparr>"

definition text_chunk :: "string \<Rightarrow> chunk" where
  "text_chunk t = \<lparr>ch_tool_calls = None, ch_content = Some t, ch_finish_reason = None\<rparr>"

definition tool_chunk :: "string option \<Rightarrow> string option \<Rightarrow> string option \<Rightarrow> chunk" where
  "tool_chunk name arguments finish =
     \<lparr>ch_tool_calls = Some [\<lparr>tc_name = name, tc_arguments = arguments\<rparr>],
      ch_content = None, ch_finish_reason = finish\<rparr>"

definition fresh_state :: state where
  "fresh_state =
     \<lparr>st_additional_kwargs = no_kwargs, st_completion_calls = [], st_closed = [],
      st_function_calls = [], st_cache = [], st_dispatched = []\<rparr>"

definition list_dir_schema :: schema where
  "list_dir_schema = [(''name'', ''list_dir''), (''description'', ''List a directory'')]"

definition hello_messages :: "message list" where
  "hello_messages = [system_msg ''You are ShellGPT'', user_msg ''hello'']"

definition with_functions :: call_args where
  "with_functions = gpt_args\<lparr>ca_functions := Some [list_dir_schema]\<rparr>"

definition list_dir_chunk :: chunk where
  "list_dir_chunk = tool_chunk (Some ''list_dir'') (Some list_dir_arguments) (Some ''tool_calls'')"

text \<open>
  The module as it is written when the configuration selects the backend that takes the
  system message separately, and a request for another model of that vendor.
\<close>

definition anthropic_env :: env where
  "anthropic_env = module_env\<lparr>backend := Anthropic\<rparr>"

definition opus_args :: call_args where
  "opus_args = \<lparr>ca_model = ''claude-3-opus-20240229'', ca_temperature = 0, ca_top_p = 1,
                ca_functions = None\<rparr>"


section \<open>Properties\<close>

subsection \<open>The adapter\<close>

lemma split_system_fst:
  "fst (split_system ms (without, sys)) =
     without @ map wrap_content (filter (\<lambda>m. msg_role m \<noteq> ''system'') ms)"
  by (induction ms arbitrary: without sys) simp_all

lemma split_system_snd:
  "snd (split_system ms (without, sys)) =
     (case filter (\<lambda>m. msg_role m = ''system'') ms of
        [] \<Rightarrow> sys
      | m # rest \<Rightarrow> Some (last (m # rest)))"
proof (induction ms arbitrary: without sys)
  case Nil
  show ?case by simp
next
  case (Cons m ms)
  show ?case
    by (cases "filter (\<lambda>m. msg_role m = ''system'') ms") (simp_all add: Cons.IH)
qed

lemma filter_system_empty:
  "(filter (\<lambda>m. msg_role m = ''system'') ms = []) = (\<forall>m\<in>set ms. msg_role m \<noteq> ''system'')"
  by (simp add: filter_empty_conv)

text \<open>
  What the adapter returns or raises when the messages come by keyword, no key
  \<^verbatim>\<open>system\<close> is passed and no positional dictionary has the role "system": the way
  \<^verbatim>\<open>get_completion\<close> calls it.
\<close>

lemma adapt_keyword_messages:
  assumes "kw_system kw = None" and "\<not> list_ex is_system_dict args"
    and "kw_messages kw = Some ms"
  shows "fst (adapt_parameters_to_anthropic args kw) =
     (if \<forall>m\<in>set ms. msg_role m \<noteq> ''system'' then Inl TypeError
      else case kw_model kw of
             None \<Rightarrow> Inl KeyError
           | Some model \<Rightarrow>
               if model = ''claude-3-5-sonnet-20241022''
               then Inr (args, kw\<lparr>kw_messages :=
                                    Some (map wrap_content
                                           (filter (\<lambda>m. msg_role m \<noteq> ''system'') ms)),
                                  kw_system :=
                                    Some (msg_content
                                           (last (filter (\<lambda>m. msg_role m = ''system'') ms)))\<rparr>)
               else Inl AssertionError)"
proof -
  obtain w sm where sp: "split_system ms ([], None) = (w, sm)"
    by (cases "split_system ms ([], None)")
  have w: "w = map wrap_content (filter (\<lambda>m. msg_role m \<noteq> ''system'') ms)"
    using split_system_fst [of ms "[]" None] sp by simp
  have sm: "sm = (case filter (\<lambda>m. msg_role m = ''system'') ms of
                    [] \<Rightarrow> None | m # rest \<Rightarrow> Some (last (m # rest)))"
    using split_system_snd [of ms "[]" None] sp by simp
  show ?thesis
  proof (cases "filter (\<lambda>m. msg_role m = ''system'') ms")
    case Nil
    then have "\<forall>m\<in>set ms. msg_role m \<noteq> ''system''"
      by (simp add: filter_system_empty)
    moreover have "sm = None" using sm Nil by simp
    ultimately show ?thesis
      using assms sp by (simp add: adapt_parameters_to_anthropic_def)
  next
    case (Cons m rest)
    then have "\<not> (\<forall>m\<in>set ms. msg_role m \<noteq> ''system'')"
      using filter_system_empty [of ms] by simp
    moreover have "sm = Some (last (filter (\<lambda>m. msg_role m = ''system'') ms))"
      using sm Cons by simp
    ultimately show ?thesis
      using assms sp w
      by (simp add: adapt_parameters_to_anthropic_def split: option.splits)
  qed
qed

text \<open>
  C10. The adapter has a precondition. Called the way \<^verbatim>\<open>get_completion\<close> calls it, it
  raises \<^verbatim>\<open>TypeError\<close> (line 61 subscripts \<^verbatim>\<open>None\<close>) when no message has the role
  "system", and it raises \<^verbatim>\<open>TypeError\<close> or \<^verbatim>\<open>AssertionError\<close> (line 62) when the
  model is not "claude-3-5-sonnet-20241022"; with a system message and that model it
  returns.
\<close>

theorem adapter_precondition:
  assumes "kw_system kw = None" and "\<not> list_ex is_system_dict args"
    and "kw_messages kw = Some ms" and "kw_model kw = Some model"
  shows "((\<forall>m\<in>set ms. msg_role m \<noteq> ''system'') \<longrightarrow>
            fst (adapt_parameters_to_anthropic args kw) = Inl TypeError)
       \<and> (model \<noteq> ''claude-3-5-sonnet-20241022'' \<longrightarrow>
            fst (adapt_parameters_to_anthropic args kw) \<in> {Inl TypeError, Inl AssertionError})
       \<and> ((\<exists>m\<in>set ms. msg_role m = ''system'') \<and> model = ''claude-3-5-sonnet-20241022'' \<longrightarrow>
            (\<exists>r. fst (adapt_parameters_to_anthropic args kw) = Inr r))"
  using adapt_keyword_messages [OF assms(1-3)] assms(4) by auto

theorem adapter_precondition_witness:
  "fst (adapt_parameters_to_anthropic []
          (completion_kwargs claude_args [user_msg ''hello''] no_kwargs)) = Inl TypeError
   \<and> fst (adapt_parameters_to_anthropic []
          (completion_kwargs gpt_args [system_msg ''sys'', user_msg ''hello''] no_kwargs))
       \<in> {Inl TypeError, Inl AssertionError}
   \<and> (\<exists>r. fst (adapt_parameters_to_anthropic []
          (completion_kwargs claude_args [system_msg ''sys'', user_msg ''hello''] no_kwargs))
        = Inr r)"
  using adapter_precondition
          [of "completion_kwargs claude_args [user_msg ''hello''] no_kwargs"
              "[]" "[user_msg ''hello'']" "''claude-3-5-sonnet-20241022''"]
        adapter_precondition
          [of "completion_kwargs gpt_args [system_msg ''sys'', user_msg ''hello''] no_kwargs"
              "[]" "[system_msg ''sys'', user_msg ''hello'']" "''gpt-4o''"]
        adapter_precondition
          [of "completion_kwargs claude_args [system_msg ''sys'', user_msg ''hello''] no_kwargs"
              "[]" "[system_msg ''sys'', user_msg ''hello'']" "''claude-3-5-sonnet-20241022''"]
  by (simp add: completion_kwargs_def claude_args_def gpt_args_def system_msg_def
        user_msg_def)

subsection \<open>The frame of a run\<close>


lemma effective_functions_idem:
  "effective_functions e role_name (effective_functions e role_name fs) =
     effective_functions e role_name fs"
  by (simp add: effective_functions_def)

lemma set_tool_kwargs_idem:
  "set_tool_kwargs fs (set_tool_kwargs fs ak) = set_tool_kwargs fs ak"
  by (cases "(fs, ak)" rule: set_tool_kwargs.cases) simp_all

lemma frame_refl: "st_additional_kwargs s = ak \<Longrightarrow> frame ak k s s"
  by (simp add: frame_def)

lemma handle_function_call_state:
  "st_additional_kwargs (state_out (handle_function_call e messages name arguments s)) = st_additional_kwargs s"
  "st_cache (state_out (handle_function_call e messages name arguments s)) = st_cache s"
  "st_completion_calls (state_out (handle_function_call e messages name arguments s)) = st_completion_calls s"
  "st_closed (state_out (handle_function_call e messages name arguments s)) = st_closed s"
  "length (st_function_calls (state_out (handle_function_call e messages name arguments s))) \<le> Suc (length (st_function_calls s))"
  by (simp_all add: handle_function_call_def Let_def split: option.splits sum.splits)

lemma handle_function_call_frame:
  "st_additional_kwargs s = ak \<Longrightarrow>
     frame ak 1 s (state_out (handle_function_call e messages name arguments s))"
  using handle_function_call_state(5) [of e messages name arguments s]
  by (simp add: frame_def handle_function_call_state)

lemma frame_trans:
  assumes "frame ak 1 s t" and "frame ak 0 t u"
  shows "frame ak 1 s u"
proof -
  from assms(1) obtain m1 where m1: "st_completion_calls t = st_completion_calls s @ m1"
    "\<forall>kw\<in>set m1. kw_additional kw = ak"
    "length (st_function_calls t) \<le> length (st_function_calls s) + length m1 + 1"
    by (auto simp: frame_def)
  from assms(2) obtain m2 where m2: "st_completion_calls u = st_completion_calls t @ m2"
    "\<forall>kw\<in>set m2. kw_additional kw = ak"
    "length (st_function_calls u) \<le> length (st_function_calls t) + length m2"
    by (auto simp: frame_def)
  have "st_completion_calls u = st_completion_calls s @ (m1 @ m2)"
    using m1(1) m2(1) by simp
  moreover have "\<forall>kw\<in>set (m1 @ m2). kw_additional kw = ak"
    using m1(2) m2(2) by auto
  moreover have "length (st_function_calls u) \<le> length (st_function_calls s) + length (m1 @ m2) + 1"
    using m1(3) m2(3) by simp
  moreover have "st_additional_kwargs u = ak" "st_cache u = st_cache s"
    using assms by (simp_all add: frame_def)
  ultimately show ?thesis
    unfolding frame_def by blast
qed

lemma try_block_frame:
  assumes R: "\<And>m t. st_additional_kwargs t = ak \<Longrightarrow> frame ak 0 t (state_out (recurse m t))"
    and s: "st_additional_kwargs s = ak"
  shows "frame ak 1 s (state_out (try_block e evs messages s recurse))"
proof (cases "stream_loop (use_litellm e) evs ([], [])")
  case (Pair frags ex)
  show ?thesis
  proof (cases ex)
    case Exhausted
    with Pair s show ?thesis by (simp add: try_block_def frame_refl)
  next
    case (Raised err)
    with Pair s show ?thesis by (simp add: try_block_def frame_refl)
  next
    case (ToolCalls name arguments)
    let ?h = "handle_function_call e messages name arguments s"
    have h: "frame ak 1 s (state_out ?h)"
      using s by (rule handle_function_call_frame)
    show ?thesis
    proof (cases "raised ?h = None")
      case False
      with Pair ToolCalls h show ?thesis by (simp add: try_block_def Let_def)
    next
      case True
      have "st_additional_kwargs (state_out ?h) = ak"
        using s by (simp add: handle_function_call_state)
      then have "frame ak 0 (state_out ?h) (state_out (recurse (messages_out ?h) (state_out ?h)))"
        by (rule R)
      with h have "frame ak 1 s (state_out (recurse (messages_out ?h) (state_out ?h)))"
        by (rule frame_trans)
      with Pair ToolCalls True show ?thesis by (simp add: try_block_def Let_def)
    qed
  qed
qed

lemma except_KeyboardInterrupt_frame:
  "frame ak k s (state_out r) \<Longrightarrow> frame ak k s (state_out (except_KeyboardInterrupt n r))"
  by (simp add: except_KeyboardInterrupt_def frame_def)

lemma requested_simps:
  "st_additional_kwargs (requested e role_name a messages s) =
     set_tool_kwargs (effective_functions e role_name (ca_functions a)) (st_additional_kwargs s)"
  "st_completion_calls (requested e role_name a messages s) =
     st_completion_calls s @ [request_kwargs e role_name a messages s]"
  "st_cache (requested e role_name a messages s) = st_cache s"
  "st_function_calls (requested e role_name a messages s) = st_function_calls s"
  "st_closed (requested e role_name a messages s) = st_closed s"
  "st_dispatched (requested e role_name a messages s) =
     st_dispatched s @
       (case fst (adapted e (request_kwargs e role_name a messages s)) of
          Inl err \<Rightarrow> []
        | Inr request \<Rightarrow> [request])"
  by (simp_all add: requested_def)

lemma request_kwargs_additional:
  "kw_additional (request_kwargs e role_name a messages s) =
     set_tool_kwargs (effective_functions e role_name (ca_functions a)) (st_additional_kwargs s)"
  by (simp add: request_kwargs_def completion_kwargs_def)

lemma run_frame_frame:
  assumes "run_frame e role_name a messages s s'"
    and "set_tool_kwargs (effective_functions e role_name (ca_functions a)) (st_additional_kwargs s)
           = st_additional_kwargs s"
  shows "frame (st_additional_kwargs s) 0 s s'"
proof -
  from assms obtain more where more:
    "st_additional_kwargs s' = st_additional_kwargs s" "st_cache s' = st_cache s"
    "st_completion_calls s' = st_completion_calls s @ request_kwargs e role_name a messages s # more"
    "\<forall>kw\<in>set more. kw_additional kw = st_additional_kwargs s"
    "length (st_function_calls s') \<le> length (st_function_calls s) + Suc (length more)"
    by (auto simp: run_frame_def)
  have "\<forall>kw\<in>set (request_kwargs e role_name a messages s # more).
          kw_additional kw = st_additional_kwargs s"
    using more(4) assms(2) by (simp add: request_kwargs_additional)
  moreover have "length (st_function_calls s') \<le>
      length (st_function_calls s) + length (request_kwargs e role_name a messages s # more) + 0"
    using more(5) by simp
  ultimately show ?thesis
    unfolding frame_def using more(1-3) by blast
qed

lemma frame_run_frame:
  assumes "frame ak 1 (requested e role_name a messages s) s'"
    and "ak = set_tool_kwargs (effective_functions e role_name (ca_functions a)) (st_additional_kwargs s)"
  shows "run_frame e role_name a messages s s'"
  using assms unfolding run_frame_def frame_def
  by (auto simp: requested_simps)

lemma get_completion_body_frame:
  assumes R: "\<And>m t. st_additional_kwargs t =
                 set_tool_kwargs (effective_functions e role_name (ca_functions a)) (st_additional_kwargs s)
             \<Longrightarrow> run_frame e role_name (a\<lparr>ca_functions := effective_functions e role_name (ca_functions a)\<rparr>) m t
                   (state_out (recurse (a\<lparr>ca_functions := effective_functions e role_name (ca_functions a)\<rparr>) m t))"
  shows "run_frame e role_name a messages s
           (state_out (get_completion_body e role_name a messages reply recurse s))"
proof -
  let ?F = "effective_functions e role_name (ca_functions a)"
  let ?ak = "set_tool_kwargs ?F (st_additional_kwargs s)"
  let ?s1 = "requested e role_name a messages s"
  let ?a' = "a\<lparr>ca_functions := ?F\<rparr>"
  have s1: "st_additional_kwargs ?s1 = ?ak" by (simp add: requested_simps)
  have R': "\<And>m t. st_additional_kwargs t = ?ak \<Longrightarrow> frame ?ak 0 t (state_out (recurse ?a' m t))"
  proof -
    fix m and t :: state assume t: "st_additional_kwargs t = ?ak"
    have "run_frame e role_name ?a' m t (state_out (recurse ?a' m t))"
      using t by (rule R)
    moreover have "set_tool_kwargs (effective_functions e role_name (ca_functions ?a')) (st_additional_kwargs t)
                     = st_additional_kwargs t"
      using t by (simp add: effective_functions_idem set_tool_kwargs_idem)
    ultimately have "frame (st_additional_kwargs t) 0 t (state_out (recurse ?a' m t))"
      by (rule run_frame_frame)
    with t show "frame ?ak 0 t (state_out (recurse ?a' m t))" by simp
  qed
  show ?thesis
  proof (cases "completion e (request_kwargs e role_name a messages s) messages reply")
    case (Pair res messages1)
    show ?thesis
    proof (cases res)
      case (Inl err)
      have "frame ?ak 1 ?s1 ?s1" using s1 by (rule frame_refl)
      then have "run_frame e role_name a messages s ?s1" by (rule frame_run_frame) simp
      with Pair Inl show ?thesis by (simp add: get_completion_body_def Let_def)
    next
      case (Inr evs)
      have "frame ?ak 1 ?s1 (state_out (try_block e evs messages1 ?s1 (recurse ?a')))"
        using R' s1 by (rule try_block_frame)
      then have "frame ?ak 1 ?s1 (state_out (except_KeyboardInterrupt (length (st_completion_calls s))
                   (try_block e evs messages1 ?s1 (recurse ?a'))))"
        by (rule except_KeyboardInterrupt_frame)
      then have "run_frame e role_name a messages s (state_out (except_KeyboardInterrupt (length (st_completion_calls s))
                   (try_block e evs messages1 ?s1 (recurse ?a'))))"
        by (rule frame_run_frame) simp
      with Pair Inr show ?thesis by (simp add: get_completion_body_def Let_def)
    qed
  qed
qed

lemma completion_Fails:
  "\<exists>err m. completion e kw messages (Fails x) = (Inl err, m)"
proof (cases "adapted e kw")
  case (Pair r m)
  then show ?thesis
    by (cases r) (simp_all add: completion_def)
qed

lemma get_completion_body_Fails:
  "state_out (get_completion_body e role_name a messages (Fails x) recurse s) =
     requested e role_name a messages s"
  using completion_Fails [of e "request_kwargs e role_name a messages s" messages x]
  by (auto simp: get_completion_body_def Let_def)

lemma get_completion_undecorated_frame:
  "run_frame e role_name a messages s
     (state_out (get_completion_undecorated e role_name a messages script s))"
proof (induction e role_name a messages script s rule: get_completion_undecorated.induct)
  case (1 e role_name a messages s)
  have "frame (set_tool_kwargs (effective_functions e role_name (ca_functions a)) (st_additional_kwargs s)) 1
          (requested e role_name a messages s) (requested e role_name a messages s)"
    by (rule frame_refl) (simp add: requested_simps)
  then have "run_frame e role_name a messages s (requested e role_name a messages s)"
    by (rule frame_run_frame) simp
  then show ?case by (simp add: get_completion_body_Fails)
next
  case (2 e role_name a messages reply script s)
  show ?case
    unfolding get_completion_undecorated.simps
    by (rule get_completion_body_frame) (simp add: Cache_call_def "2.IH")
qed

subsection \<open>What the loop collects\<close>

lemma take_tool_call_pair:
  "take_tool_call tc (name, arguments) =
     (case tc_name tc of None \<Rightarrow> name | Some n \<Rightarrow> if n \<noteq> [] then n else name,
      case tc_arguments tc of None \<Rightarrow> arguments
      | Some a \<Rightarrow> if a \<noteq> [] then arguments @ a else arguments)"
  by (simp add: take_tool_call_def)

lemma given_names_Nil: "given_names [] = []"
  by (simp add: given_names_def)

lemma given_names_Cons:
  "given_names (tc # tcs) =
     (case tc_name tc of None \<Rightarrow> [] | Some n \<Rightarrow> if n \<noteq> [] then [n] else [])
       @ given_names tcs"
  by (cases "tc_name tc") (simp_all add: given_names_def)

lemma joined_arguments_Nil: "joined_arguments [] = []"
  by (simp add: joined_arguments_def)

lemma joined_arguments_Cons:
  "joined_arguments (tc # tcs) =
     (case tc_arguments tc of None \<Rightarrow> [] | Some a \<Rightarrow> a) @ joined_arguments tcs"
  by (simp add: joined_arguments_def)

lemma fold_take_tool_call:
  "fold take_tool_call tcs (name, arguments) =
     (if given_names tcs = [] then name else last (given_names tcs),
      arguments @ joined_arguments tcs)"
proof (induction tcs arbitrary: name arguments)
  case Nil
  show ?case by (simp add: given_names_Nil joined_arguments_Nil)
next
  case (Cons tc tcs)
  show ?case
    by (cases "tc_name tc"; cases "tc_arguments tc")
       (simp_all add: Cons.IH take_tool_call_pair given_names_Cons joined_arguments_Cons)
qed

lemma take_tool_calls_fold:
  "take_tool_calls c acc =
     fold take_tool_call (case ch_tool_calls c of None \<Rightarrow> [] | Some tcs \<Rightarrow> tcs) acc"
  by (cases "ch_tool_calls c") (simp_all add: take_tool_calls_def)

lemma tool_calls_of_Cons:
  "tool_calls_of (c # cs) =
     (case ch_tool_calls c of None \<Rightarrow> [] | Some tcs \<Rightarrow> tcs) @ tool_calls_of cs"
  by (simp add: tool_calls_of_def)

lemma fold_take_tool_calls:
  "fold take_tool_calls cs acc = fold take_tool_call (tool_calls_of cs) acc"
proof (induction cs arbitrary: acc)
  case Nil
  show ?case by (simp add: tool_calls_of_def)
next
  case (Cons c cs)
  have "fold take_tool_calls (c # cs) acc = fold take_tool_calls cs (take_tool_calls c acc)"
    by simp
  also have "\<dots> = fold take_tool_call (tool_calls_of cs) (take_tool_calls c acc)"
    by (rule Cons.IH)
  also have "\<dots> = fold take_tool_call (tool_calls_of (c # cs)) acc"
    by (simp add: take_tool_calls_fold [of c acc] tool_calls_of_Cons)
  finally show ?case .
qed

lemma stream_loop_chunks:
  assumes "\<forall>c\<in>set cs. ch_finish_reason c \<noteq> Some ''tool_calls''"
  shows "stream_loop (Some b) (map Chunk cs @ evs) acc =
           (map text_of cs @ fst (stream_loop (Some b) evs (fold take_tool_calls cs acc)),
            snd (stream_loop (Some b) evs (fold take_tool_calls cs acc)))"
  using assms
proof (induction cs arbitrary: acc)
  case Nil
  show ?case by simp
next
  case (Cons c cs)
  then show ?case by (simp add: Let_def split: prod.splits)
qed

lemma stream_loop_tool_calls:
  assumes "\<forall>c\<in>set cs. ch_finish_reason c \<noteq> Some ''tool_calls''"
    and "ch_finish_reason c = Some ''tool_calls''"
  shows "stream_loop (Some b) (map Chunk cs @ Chunk c # evs) ([], []) =
           (map text_of cs,
            ToolCalls (last_name (tool_calls_of (cs @ [c])))
                      (joined_arguments (tool_calls_of (cs @ [c]))))"
proof -
  have "fold take_tool_calls (cs @ [c]) ([], []) =
          (last_name (tool_calls_of (cs @ [c])), joined_arguments (tool_calls_of (cs @ [c])))"
    by (simp only: fold_take_tool_calls fold_take_tool_call last_name_def) simp
  then have "take_tool_calls c (fold take_tool_calls cs ([], [])) =
          (last_name (tool_calls_of (cs @ [c])), joined_arguments (tool_calls_of (cs @ [c])))"
    by simp
  then show ?thesis
    using assms by (simp add: stream_loop_chunks [OF assms(1)] Let_def)
qed

lemma stream_loop_exhausted:
  assumes "\<forall>c\<in>set cs. ch_finish_reason c \<noteq> Some ''tool_calls''"
  shows "stream_loop (Some b) (map Chunk cs) acc = (map text_of cs, Exhausted)"
  using stream_loop_chunks [OF assms, of b "[]" acc] by simp


subsection \<open>One turn of get_completion\<close>

lemma get_completion_body_streams:
  assumes "completion e (request_kwargs e role_name a messages s) messages reply =
             (Inr evs, messages1)"
  shows "get_completion_body e role_name a messages reply recurse s =
           except_KeyboardInterrupt (length (st_completion_calls s))
             (try_block e evs messages1 (requested e role_name a messages s)
                (recurse (a\<lparr>ca_functions := effective_functions e role_name (ca_functions a)\<rparr>)))"
  using assms by (simp add: get_completion_body_def Let_def)

lemma get_completion_undecorated_Cons:
  "get_completion_undecorated e role_name a messages (reply # script) s =
     get_completion_body e role_name a messages reply
       (\<lambda>a' messages' s'. get_completion e role_name False a' messages' script s') s"
  by (simp add: get_completion_def)

lemma completion_not_Anthropic:
  "backend e \<noteq> Anthropic \<Longrightarrow>
     completion e kw messages (Streams evs) = (Inr evs, messages)"
  by (cases "backend e") (simp_all add: completion_def adapted_def)

text \<open>
  C3. In the module as it is written the turn of the specification's scenario (a stream
  whose only chunk reports the finish reason "tool_calls" with the name "list_dir" and the
  arguments \<^verbatim>\<open>{"path": "."}\<close>) raises \<^verbatim>\<open>NameError\<close> at line 163: no message is
  appended, no function is called, and \<^verbatim>\<open>completion\<close> is called once, with no
  recursive call.
\<close>

theorem function_call_turn_raises_NameError:
  "raised (get_completion_undecorated module_env ''ShellGPT'' with_functions hello_messages
             [Streams [Chunk list_dir_chunk], Streams [Chunk (text_chunk ''Done'')]]
             fresh_state) = Some NameError
   \<and> messages_out (get_completion_undecorated module_env ''ShellGPT'' with_functions
             hello_messages
             [Streams [Chunk list_dir_chunk], Streams [Chunk (text_chunk ''Done'')]]
             fresh_state) = hello_messages
   \<and> st_function_calls (state_out (get_completion_undecorated module_env ''ShellGPT''
             with_functions hello_messages
             [Streams [Chunk list_dir_chunk], Streams [Chunk (text_chunk ''Done'')]]
             fresh_state)) = []
   \<and> length (st_completion_calls (state_out (get_completion_undecorated module_env
             ''ShellGPT'' with_functions hello_messages
             [Streams [Chunk list_dir_chunk], Streams [Chunk (text_chunk ''Done'')]]
             fresh_state))) = 1"
  by (simp add: get_completion_body_def completion_def adapted_def try_block_def
        except_KeyboardInterrupt_def requested_def request_kwargs_def module_env_def
        fresh_state_def Let_def)


text \<open>
  C9. A call without functions that follows a call with functions still sends the keys
  \<^verbatim>\<open>tools\<close>, \<^verbatim>\<open>tool_choice\<close> and \<^verbatim>\<open>parallel_tool_calls\<close>: lines 144-146 write
  them into the module-level dictionary, and nothing removes them.
\<close>

theorem tool_kwargs_outlive_their_call:
  "kw_additional
     (last (st_completion_calls (state_out
        (get_completion_undecorated module_env ''ShellGPT'' gpt_args hello_messages
           [Streams []]
           (state_out (get_completion_undecorated module_env ''ShellGPT'' with_functions
              hello_messages [Streams []] fresh_state)))))) =
     \<lparr>ak_timeout = None, ak_base_url = None, ak_tool_choice = Some ''auto'',
      ak_tools = Some [list_dir_schema], ak_parallel_tool_calls = Some False\<rparr>
   \<and> ca_functions gpt_args = None"
  by (simp add: get_completion_body_def completion_def adapted_def try_block_def
        except_KeyboardInterrupt_def requested_def request_kwargs_def module_env_def
        fresh_state_def Let_def effective_functions_def with_functions_def gpt_args_def
        completion_kwargs_def no_kwargs_def)

text \<open>
  C5. Under the shell role the caller's functions are dropped (line 141), yet the request
  offers the tools that an earlier call under another role has left in the module-level
  dictionary.
\<close>

theorem shell_role_offers_stale_tools:
  "ak_tools (kw_additional
     (last (st_completion_calls (state_out
        (get_completion_undecorated module_env (role_SHELL module_env) with_functions
           hello_messages [Streams []]
           (state_out (get_completion_undecorated module_env ''ShellGPT'' with_functions
              hello_messages [Streams []] fresh_state))))))) = Some [list_dir_schema]
   \<and> effective_functions module_env (role_SHELL module_env) (ca_functions with_functions)
       = None"
  by (simp add: get_completion_body_def completion_def adapted_def try_block_def
        except_KeyboardInterrupt_def requested_def request_kwargs_def module_env_def
        fresh_state_def Let_def effective_functions_def with_functions_def gpt_args_def
        completion_kwargs_def no_kwargs_def)

text \<open>
  What does hold under the three roles: the caller's functions have no influence on the
  run, and the request carries the module-level dictionary as the call found it.
\<close>

lemma shell_roles_ignore_functions:
  assumes "role_name = role_SHELL e \<or> role_name = role_CODE e
             \<or> role_name = role_DESCRIBE_SHELL e"
  shows "get_completion_undecorated e role_name a messages script s =
           get_completion_undecorated e role_name (a\<lparr>ca_functions := None\<rparr>) messages script s"
    and "kw_additional (request_kwargs e role_name a messages s) = st_additional_kwargs s"
proof -
  have eff: "\<And>fs. effective_functions e role_name fs = None"
    using assms by (auto simp: effective_functions_def)
  have kw: "request_kwargs e role_name a messages s =
              request_kwargs e role_name (a\<lparr>ca_functions := None\<rparr>) messages s"
    by (simp add: request_kwargs_def eff completion_kwargs_def)
  have rq: "requested e role_name a messages s =
              requested e role_name (a\<lparr>ca_functions := None\<rparr>) messages s"
    by (simp add: requested_def eff kw)
  have body: "\<And>reply recurse.
      get_completion_body e role_name a messages reply recurse s =
      get_completion_body e role_name (a\<lparr>ca_functions := None\<rparr>) messages reply recurse s"
    by (simp add: get_completion_body_def eff kw rq Let_def split: prod.split sum.split)
  show "get_completion_undecorated e role_name a messages script s =
          get_completion_undecorated e role_name (a\<lparr>ca_functions := None\<rparr>) messages script s"
    by (cases script) (simp_all add: body)
  show "kw_additional (request_kwargs e role_name a messages s) = st_additional_kwargs s"
    by (simp add: request_kwargs_def eff completion_kwargs_def)
qed

subsection \<open>Requests with functions\<close>

text \<open>
  C6. When the caller supplies a non-empty list of functions and the role is none of the
  three that drop it, every request of the run (the one of line 148 and those of the
  recursive calls) carries \<^verbatim>\<open>tool_choice="auto"\<close>, the supplied \<^verbatim>\<open>tools\<close> and
  \<^verbatim>\<open>parallel_tool_calls=False\<close>, and the run calls at most one function per request.
\<close>

theorem functions_request_tool_kwargs:
  assumes "ca_functions a = Some (f # fs)"
    and "role_name \<noteq> role_SHELL e" and "role_name \<noteq> role_CODE e"
    and "role_name \<noteq> role_DESCRIBE_SHELL e"
  shows "\<exists>more.
           st_completion_calls
             (state_out (get_completion_undecorated e role_name a messages script s)) =
             st_completion_calls s @ request_kwargs e role_name a messages s # more
         \<and> (\<forall>kw\<in>set (request_kwargs e role_name a messages s # more).
               ak_tool_choice (kw_additional kw) = Some ''auto''
             \<and> ak_tools (kw_additional kw) = Some (f # fs)
             \<and> ak_parallel_tool_calls (kw_additional kw) = Some False)
         \<and> length (st_function_calls
               (state_out (get_completion_undecorated e role_name a messages script s)))
             \<le> length (st_function_calls s) + Suc (length more)"
proof -
  let ?s' = "state_out (get_completion_undecorated e role_name a messages script s)"
  let ?ak = "set_tool_kwargs (effective_functions e role_name (ca_functions a))
               (st_additional_kwargs s)"
  have eff: "effective_functions e role_name (ca_functions a) = Some (f # fs)"
    using assms by (simp add: effective_functions_def)
  have ak: "ak_tool_choice ?ak = Some ''auto'' \<and> ak_tools ?ak = Some (f # fs)
              \<and> ak_parallel_tool_calls ?ak = Some False"
    by (simp add: eff)
  have "run_frame e role_name a messages s ?s'"
    by (rule get_completion_undecorated_frame)
  then obtain more where more:
    "st_additional_kwargs ?s' = ?ak"
    "st_completion_calls ?s' =
       st_completion_calls s @ request_kwargs e role_name a messages s # more"
    "\<forall>kw\<in>set more. kw_additional kw = st_additional_kwargs ?s'"
    "length (st_function_calls ?s') \<le> length (st_function_calls s) + Suc (length more)"
    unfolding run_frame_def by blast
  have "\<forall>kw\<in>set (request_kwargs e role_name a messages s # more). kw_additional kw = ?ak"
    using more(1,3) by (simp add: request_kwargs_additional)
  with ak have "\<forall>kw\<in>set (request_kwargs e role_name a messages s # more).
               ak_tool_choice (kw_additional kw) = Some ''auto''
             \<and> ak_tools (kw_additional kw) = Some (f # fs)
             \<and> ak_parallel_tool_calls (kw_additional kw) = Some False"
    by simp
  with more(2,4) show ?thesis by blast
qed

theorem functions_request_tool_kwargs_witness:
  "\<exists>more.
     st_completion_calls
       (state_out (get_completion_undecorated bound_env ''ShellGPT'' with_functions
          hello_messages [Streams [Chunk (text_chunk ''Hi'')]] fresh_state)) =
       st_completion_calls fresh_state
         @ request_kwargs bound_env ''ShellGPT'' with_functions hello_messages fresh_state
         # more
   \<and> (\<forall>kw\<in>set (request_kwargs bound_env ''ShellGPT'' with_functions hello_messages
                    fresh_state # more).
         ak_tool_choice (kw_additional kw) = Some ''auto''
       \<and> ak_tools (kw_additional kw) = Some [list_dir_schema]
       \<and> ak_parallel_tool_calls (kw_additional kw) = Some False)
   \<and> length (st_function_calls
         (state_out (get_completion_undecorated bound_env ''ShellGPT'' with_functions
            hello_messages [Streams [Chunk (text_chunk ''Hi'')]] fresh_state)))
       \<le> length (st_function_calls fresh_state) + Suc (length more)"
  using functions_request_tool_kwargs
          [of with_functions list_dir_schema "[]" "''ShellGPT''" bound_env hello_messages
              "[Streams [Chunk (text_chunk ''Hi'')]]" fresh_state]
  by (simp add: with_functions_def gpt_args_def bound_env_def module_env_def)

subsection \<open>Malformed arguments\<close>

text \<open>
  C8. When the argument string of a function call is not valid JSON,
  \<^verbatim>\<open>handle_function_call\<close> raises what \<^verbatim>\<open>json.loads\<close> raises (the specification's
  InvalidArgumentsError), after the assistant message is appended and before any function
  is looked up or called; and a run of \<^verbatim>\<open>get_completion\<close> whose loop reaches such a
  function call raises the same error to its caller: the handler of line 184 does not
  catch it and no recursive call is made.
\<close>

theorem invalid_arguments_surface:
  assumes "json_loads e arguments = None"
  shows "raised (handle_function_call e messages name arguments s) = Some JSONDecodeError
       \<and> messages_out (handle_function_call e messages name arguments s) =
           messages @ [assistant_message name arguments]
       \<and> st_function_calls (state_out (handle_function_call e messages name arguments s)) =
           st_function_calls s
       \<and> (\<forall>role_name a messages0 reply script evs frags s0.
             completion e (request_kwargs e role_name a messages0 s0) messages0 reply =
               (Inr evs, messages)
             \<and> stream_loop (use_litellm e) evs ([], []) = (frags, ToolCalls name arguments)
             \<longrightarrow>
             raised (get_completion_undecorated e role_name a messages0 (reply # script) s0) =
               Some JSONDecodeError
             \<and> \<not> interrupted
                   (get_completion_undecorated e role_name a messages0 (reply # script) s0)
             \<and> fragments
                   (get_completion_undecorated e role_name a messages0 (reply # script) s0) =
                 frags @ [newline]
             \<and> messages_out
                   (get_completion_undecorated e role_name a messages0 (reply # script) s0) =
                 messages @ [assistant_message name arguments]
             \<and> state_out
                   (get_completion_undecorated e role_name a messages0 (reply # script) s0) =
                 requested e role_name a messages0 s0)"
proof -
  have role: "msg_role (assistant_message name arguments) = ''assistant''"
    by (simp add: assistant_message_def)
  have h: "\<And>t. handle_function_call e messages name arguments t =
             \<lparr>fragments = [newline], raised = Some JSONDecodeError, interrupted = False,
              messages_out = messages @ [assistant_message name arguments], state_out = t\<rparr>"
    using assms by (simp add: handle_function_call_def role Let_def)
  have run: "\<And>role_name a messages0 reply script evs frags s0.
      completion e (request_kwargs e role_name a messages0 s0) messages0 reply =
        (Inr evs, messages) \<Longrightarrow>
      stream_loop (use_litellm e) evs ([], []) = (frags, ToolCalls name arguments) \<Longrightarrow>
      get_completion_undecorated e role_name a messages0 (reply # script) s0 =
        \<lparr>fragments = frags @ [newline], raised = Some JSONDecodeError, interrupted = False,
         messages_out = messages @ [assistant_message name arguments],
         state_out = requested e role_name a messages0 s0\<rparr>"
    unfolding get_completion_undecorated_Cons
    by (simp add: get_completion_body_streams try_block_def h except_KeyboardInterrupt_def)
  show ?thesis
    by (simp add: h run del: get_completion_undecorated.simps)
qed

theorem invalid_arguments_surface_witness:
  "raised (handle_function_call bound_env hello_messages ''list_dir'' ''{path'' fresh_state) =
     Some JSONDecodeError
   \<and> raised (get_completion_undecorated bound_env ''ShellGPT'' with_functions hello_messages
       [Streams [Chunk (tool_chunk (Some ''list_dir'') (Some ''{path'') (Some ''tool_calls''))],
        Streams [Chunk (text_chunk ''Done'')]] fresh_state) = Some JSONDecodeError"
proof -
  have j: "json_loads bound_env ''{path'' = None"
    by (simp add: bound_env_def module_env_def example_json_loads_def list_dir_arguments_def)
  have c: "completion bound_env
             (request_kwargs bound_env ''ShellGPT'' with_functions hello_messages fresh_state)
             hello_messages
             (Streams [Chunk (tool_chunk (Some ''list_dir'') (Some ''{path'')
                               (Some ''tool_calls''))]) =
           (Inr [Chunk (tool_chunk (Some ''list_dir'') (Some ''{path'') (Some ''tool_calls''))],
            hello_messages)"
    by (rule completion_not_Anthropic) (simp add: bound_env_def module_env_def)
  have l: "stream_loop (use_litellm bound_env)
             [Chunk (tool_chunk (Some ''list_dir'') (Some ''{path'') (Some ''tool_calls''))]
             ([], []) = ([], ToolCalls ''list_dir'' ''{path'')"
    by (simp add: bound_env_def module_env_def tool_chunk_def take_tool_calls_def
          take_tool_call_def)
  show ?thesis
    using invalid_arguments_surface [OF j, of hello_messages "''list_dir''" fresh_state] c l
    by blast
qed

subsection \<open>Replay and bypass\<close>


subsection \<open>Text and function-call fragments\<close>

lemma try_block_exhausted:
  "stream_loop (use_litellm e) evs ([], []) = (frags, Exhausted) \<Longrightarrow>
     try_block e evs messages s recurse =
       \<lparr>fragments = frags, raised = None, interrupted = False, messages_out = messages,
        state_out = s\<rparr>"
  by (simp add: try_block_def)

text \<open>
  C4, as amended. While the global \<^verbatim>\<open>use_litellm\<close> is bound: every chunk before a chunk
  that reports the finish reason "tool_calls" yields its text (the empty string when it
  has none), in the order of arrival, so a stream without a function call yields the text
  of all its chunks; the chunk that reports the finish reason "tool_calls" yields nothing,
  whatever text it carries; the argument fragments of all tool calls up to and including
  that chunk are concatenated in the order of arrival; the name is the last name fragment
  that is neither \<^verbatim>\<open>None\<close> nor empty, a later fragment replacing an earlier one; and
  these two strings are the ones \<^verbatim>\<open>handle_function_call\<close> receives.
\<close>

theorem text_yielded_arguments_joined_name_replaced:
  assumes "use_litellm e = Some b"
    and "\<forall>c\<in>set cs. ch_finish_reason c \<noteq> Some ''tool_calls''"
  shows "stream_loop (use_litellm e) (map Chunk cs) ([], []) = (map text_of cs, Exhausted)
       \<and> try_block e (map Chunk cs) messages s recurse =
           \<lparr>fragments = map text_of cs, raised = None, interrupted = False,
            messages_out = messages, state_out = s\<rparr>
       \<and> (ch_finish_reason c = Some ''tool_calls'' \<longrightarrow>
            stream_loop (use_litellm e) (map Chunk cs @ Chunk c # evs) ([], []) =
              (map text_of cs,
               ToolCalls (last_name (tool_calls_of (cs @ [c])))
                         (joined_arguments (tool_calls_of (cs @ [c]))))
          \<and> try_block e (map Chunk cs @ Chunk c # evs) messages s recurse =
              (let h = handle_function_call e messages
                         (last_name (tool_calls_of (cs @ [c])))
                         (joined_arguments (tool_calls_of (cs @ [c]))) s
               in if raised h \<noteq> None then h\<lparr>fragments := map text_of cs @ fragments h\<rparr>
                  else let r = recurse (messages_out h) (state_out h)
                       in r\<lparr>fragments := map text_of cs @ fragments h @ fragments r\<rparr>))"
proof -
  have ex: "stream_loop (use_litellm e) (map Chunk cs) ([], []) = (map text_of cs, Exhausted)"
    using stream_loop_exhausted [OF assms(2), of b "([], [])"] assms(1) by simp
  have tc: "stream_loop (use_litellm e) (map Chunk cs @ Chunk c # evs) ([], []) =
              (map text_of cs,
               ToolCalls (last_name (tool_calls_of (cs @ [c])))
                         (joined_arguments (tool_calls_of (cs @ [c]))))"
    if "ch_finish_reason c = Some ''tool_calls''"
    using stream_loop_tool_calls [OF assms(2) that, of b evs] assms(1) by simp
  show ?thesis
    using ex tc by (simp add: try_block_exhausted try_block_def)
qed

theorem text_yielded_arguments_joined_name_replaced_witness:
  "stream_loop (use_litellm bound_env)
     [Chunk (text_chunk ''Hi''), Chunk (text_chunk '' there'')] ([], []) =
     ([''Hi'', '' there''], Exhausted)
   \<and> stream_loop (use_litellm bound_env)
     [Chunk (text_chunk ''Hi''), Chunk (tool_chunk (Some ''list_dir'') (Some ''{'') None),
      Chunk (tool_chunk None (Some ''}'') (Some ''tool_calls''))] ([], []) =
     ([''Hi'', ''''], ToolCalls ''list_dir'' ''{}'')"
  using text_yielded_arguments_joined_name_replaced
          [of bound_env False "[text_chunk ''Hi'', text_chunk '' there'']"
              "[]" fresh_state "\<lambda>m t. no_reply gpt_args m t"
              "tool_chunk None (Some ''}'') (Some ''tool_calls'')" "[]"]
        text_yielded_arguments_joined_name_replaced
          [of bound_env False
              "[text_chunk ''Hi'', tool_chunk (Some ''list_dir'') (Some ''{'') None]"
              "[]" fresh_state "\<lambda>m t. no_reply gpt_args m t"
              "tool_chunk None (Some ''}'') (Some ''tool_calls'')" "[]"]
  by (simp add: bound_env_def module_env_def text_chunk_def tool_chunk_def text_of_def
        tool_calls_of_def joined_arguments_def last_name_def given_names_def)

text \<open>
  C4 as stated fails. A name that arrives as "list" and then "_dir" reaches the dispatch
  as "_dir", not as "list_dir". The text "bye" of the chunk that reports the finish reason
  "tool_calls" is not yielded. And in the module as it is written the first chunk raises
  \<^verbatim>\<open>NameError\<close>.
\<close>

theorem name_fragments_not_concatenated:
  "stream_loop (use_litellm bound_env)
     [Chunk (tool_chunk (Some ''list'') (Some ''{'') None),
      Chunk (tool_chunk (Some ''_dir'') (Some ''}'') (Some ''tool_calls''))] ([], []) =
     ([''''], ToolCalls ''_dir'' ''{}'')
   \<and> ''_dir'' \<noteq> ''list'' @ ''_dir''
   \<and> stream_loop (use_litellm bound_env)
     [Chunk (text_chunk ''Hi''),
      Chunk ((tool_chunk (Some ''list_dir'') (Some ''{}'') (Some ''tool_calls''))
               \<lparr>ch_content := Some ''bye''\<rparr>)] ([], []) =
     ([''Hi''], ToolCalls ''list_dir'' ''{}'')
   \<and> stream_loop (use_litellm module_env)
     [Chunk (tool_chunk (Some ''list'') (Some ''{'') None),
      Chunk (tool_chunk (Some ''_dir'') (Some ''}'') (Some ''tool_calls''))] ([], []) =
     ([], Raised NameError)"
  by (simp add: bound_env_def module_env_def tool_chunk_def text_chunk_def
        take_tool_calls_def take_tool_call_def text_of_def)

subsection \<open>What reaches the client\<close>

lemma handle_function_call_dispatched:
  "st_dispatched (state_out (handle_function_call e messages name arguments s)) =
     st_dispatched s"
  by (simp add: handle_function_call_def Let_def split: option.splits sum.splits)

lemma try_block_dispatched:
  assumes "\<And>m t. \<exists>more. st_dispatched (state_out (recurse m t)) = st_dispatched t @ more"
  shows "\<exists>more. st_dispatched (state_out (try_block e evs messages s recurse)) =
           st_dispatched s @ more"
proof (cases "stream_loop (use_litellm e) evs ([], [])")
  case (Pair frags ex)
  show ?thesis
  proof (cases ex)
    case Exhausted
    with Pair show ?thesis by (simp add: try_block_def)
  next
    case (Raised err)
    with Pair show ?thesis by (simp add: try_block_def)
  next
    case (ToolCalls name arguments)
    let ?h = "handle_function_call e messages name arguments s"
    show ?thesis
    proof (cases "raised ?h = None")
      case False
      with Pair ToolCalls show ?thesis
        by (simp add: try_block_def Let_def handle_function_call_dispatched)
    next
      case True
      obtain more where
        "st_dispatched (state_out (recurse (messages_out ?h) (state_out ?h))) =
           st_dispatched (state_out ?h) @ more"
        using assms by blast
      with Pair ToolCalls True show ?thesis
        by (simp add: try_block_def Let_def handle_function_call_dispatched)
    qed
  qed
qed

lemma get_completion_body_dispatched:
  assumes "\<And>a' m t. \<exists>more. st_dispatched (state_out (recurse a' m t)) = st_dispatched t @ more"
  shows "\<exists>more. st_dispatched (state_out (get_completion_body e role_name a messages reply
                                            recurse s)) =
           st_dispatched (requested e role_name a messages s) @ more"
proof (cases "completion e (request_kwargs e role_name a messages s) messages reply")
  case (Pair res messages1)
  show ?thesis
  proof (cases res)
    case (Inl err)
    with Pair show ?thesis by (simp add: get_completion_body_def Let_def)
  next
    case (Inr evs)
    obtain more where
      "st_dispatched (state_out (try_block e evs messages1
          (requested e role_name a messages s)
          (recurse (a\<lparr>ca_functions := effective_functions e role_name (ca_functions a)\<rparr>)))) =
         st_dispatched (requested e role_name a messages s) @ more"
      using try_block_dispatched [of "recurse (a\<lparr>ca_functions :=
                effective_functions e role_name (ca_functions a)\<rparr>)"] assms
      by blast
    with Pair Inr show ?thesis
      by (simp add: get_completion_body_def Let_def except_KeyboardInterrupt_def)
  qed
qed

lemma get_completion_undecorated_dispatched:
  "\<exists>more. st_dispatched (state_out (get_completion_undecorated e role_name a messages
                                       script s)) =
     st_dispatched (requested e role_name a messages s) @ more"
proof (induction e role_name a messages script s rule: get_completion_undecorated.induct)
  case (1 e role_name a messages s)
  show ?case by (simp add: get_completion_body_Fails)
next
  case (2 e role_name a messages reply script s)
  have "\<exists>more. st_dispatched (state_out (get_completion_undecorated e role_name a' m
                                             script t)) = st_dispatched t @ more"
    for a' m t
  proof -
    obtain more where
      "st_dispatched (state_out (get_completion_undecorated e role_name a' m script t)) =
         st_dispatched (requested e role_name a' m t) @ more"
      using "2.IH" by blast
    then show ?thesis by (simp add: requested_simps)
  qed
  then show ?case
    unfolding get_completion_undecorated.simps
    by (intro get_completion_body_dispatched) (simp add: Cache_call_def)
qed

lemma adapt_keyword_messages_snd:
  assumes "kw_system kw = None" and "\<not> list_ex is_system_dict args"
    and "kw_messages kw = Some ms"
  shows "snd (adapt_parameters_to_anthropic args kw) = Some (mutated_messages ms)"
  using assms
  by (simp add: adapt_parameters_to_anthropic_def Let_def
        split: prod.splits option.splits)

lemma wrap_content_eq:
  "wrap_content = (\<lambda>m. m\<lparr>msg_content := Blocks [(''text'', msg_content m)]\<rparr>)"
  by (rule ext) (simp add: wrap_content_def)

text \<open>
  C7, as amended. A request to the backend that takes the system message separately, with
  a system message and the model "claude-3-5-sonnet-20241022": the client is called with
  the keyword arguments of line 148 in which the array of messages holds the messages
  other than the system messages, in their order, each with its content wrapped as one
  block of type "text" (user, assistant and function messages alike), and in which the
  new top-level field \<^verbatim>\<open>system\<close> is the content of the (last) system message;
  \<^verbatim>\<open>completion\<close> returns what the client returns, and the caller's messages are left
  with the same wrapping, done in place.
\<close>

theorem adapter_reshapes_before_dispatch:
  assumes "backend e = Anthropic"
    and "\<exists>m\<in>set messages. msg_role m = ''system''"
    and "ca_model a = ''claude-3-5-sonnet-20241022''"
  shows "(\<exists>more.
            st_dispatched (state_out (get_completion_undecorated e role_name a messages
                                        script s)) =
              st_dispatched s @
                ([], (request_kwargs e role_name a messages s)
                       \<lparr>kw_messages :=
                          Some (map (\<lambda>m. m\<lparr>msg_content := Blocks [(''text'', msg_content m)]\<rparr>)
                                  (filter (\<lambda>m. msg_role m \<noteq> ''system'') messages)),
                        kw_system :=
                          Some (msg_content
                                  (last (filter (\<lambda>m. msg_role m = ''system'') messages)))\<rparr>)
                # more)
       \<and> completion e (request_kwargs e role_name a messages s) messages reply =
           (case reply of Fails err \<Rightarrow> Inl err | Streams evs \<Rightarrow> Inr evs,
            map (\<lambda>m. if msg_role m = ''system'' then m
                      else m\<lparr>msg_content := Blocks [(''text'', msg_content m)]\<rparr>) messages)"
proof -
  let ?kw = "request_kwargs e role_name a messages s"
  let ?rq = "([] :: pyarg list,
              ?kw\<lparr>kw_messages :=
                     Some (map (\<lambda>m. m\<lparr>msg_content := Blocks [(''text'', msg_content m)]\<rparr>)
                             (filter (\<lambda>m. msg_role m \<noteq> ''system'') messages)),
                   kw_system :=
                     Some (msg_content
                             (last (filter (\<lambda>m. msg_role m = ''system'') messages)))\<rparr>)"
  have kw: "kw_system ?kw = None" "\<not> list_ex is_system_dict []"
    "kw_messages ?kw = Some messages" "kw_model ?kw = Some ''claude-3-5-sonnet-20241022''"
    using assms(3) by (simp_all add: request_kwargs_def completion_kwargs_def)
  have ad: "adapted e ?kw = adapt_parameters_to_anthropic [] ?kw"
    using assms(1) by (simp add: adapted_def)
  have f: "fst (adapted e ?kw) = Inr ?rq"
    unfolding ad
    using adapt_keyword_messages [OF kw(1-3)] kw(4) assms(2)
    by (auto simp: wrap_content_eq)
  have sn: "snd (adapted e ?kw) =
              Some (map (\<lambda>m. if msg_role m = ''system'' then m
                              else m\<lparr>msg_content := Blocks [(''text'', msg_content m)]\<rparr>)
                      messages)"
    unfolding ad
    using adapt_keyword_messages_snd [OF kw(1-3)]
    by (simp add: mutated_messages_def wrap_content_eq)
  have first: "st_dispatched (requested e role_name a messages s) = st_dispatched s @ [?rq]"
    by (simp add: requested_simps f)
  obtain more where
    "st_dispatched (state_out (get_completion_undecorated e role_name a messages script s)) =
       st_dispatched (requested e role_name a messages s) @ more"
    using get_completion_undecorated_dispatched by blast
  then have run: "\<exists>more.
      st_dispatched (state_out (get_completion_undecorated e role_name a messages script s)) =
        st_dispatched s @ ?rq # more"
    by (simp add: first)
  have "adapted e ?kw = (Inr ?rq, Some (map (\<lambda>m. if msg_role m = ''system'' then m
                              else m\<lparr>msg_content := Blocks [(''text'', msg_content m)]\<rparr>)
                      messages))"
    using f sn by (cases "adapted e ?kw") simp
  then have "completion e ?kw messages reply =
           (case reply of Fails err \<Rightarrow> Inl err | Streams evs \<Rightarrow> Inr evs,
            map (\<lambda>m. if msg_role m = ''system'' then m
                      else m\<lparr>msg_content := Blocks [(''text'', msg_content m)]\<rparr>) messages)"
    by (simp add: completion_def)
  with run show ?thesis by blast
qed

theorem adapter_reshapes_before_dispatch_witness:
  "st_dispatched (state_out (get_completion_undecorated anthropic_env ''ShellGPT''
       claude_args [system_msg ''sys'', user_msg ''hello''] [Streams []] fresh_state)) =
     [([], \<lparr>kw_model = Some ''claude-3-5-sonnet-20241022'', kw_temperature = Some 0,
            kw_top_p = Some 1,
            kw_messages = Some [\<lparr>msg_role = ''user'',
                                  msg_content = Blocks [(''text'', Str ''hello'')],
                                  msg_function_call = None, msg_name = None\<rparr>],
            kw_stream = Some True, kw_system = Some (Str ''sys''),
            kw_additional = no_kwargs\<rparr>)]"
proof -
  have b: "backend anthropic_env = Anthropic"
    by (simp add: anthropic_env_def)
  have m: "\<exists>m\<in>set [system_msg ''sys'', user_msg ''hello'']. msg_role m = ''system''"
    by (simp add: system_msg_def)
  have c: "ca_model claude_args = ''claude-3-5-sonnet-20241022''"
    by (simp add: claude_args_def)
  have l: "length (st_dispatched (state_out (get_completion_undecorated anthropic_env
             ''ShellGPT'' claude_args [system_msg ''sys'', user_msg ''hello''] [Streams []]
             fresh_state))) = 1"
    by (simp add: get_completion_body_def completion_def adapted_def try_block_def
          except_KeyboardInterrupt_def requested_def request_kwargs_def
          adapt_parameters_to_anthropic_def anthropic_env_def module_env_def
          fresh_state_def completion_kwargs_def claude_args_def system_msg_def
          user_msg_def Let_def)
  from adapter_reshapes_before_dispatch [OF b m c, of "''ShellGPT''" "[Streams []]"
         fresh_state "Streams []"]
  obtain more where d:
    "st_dispatched (state_out (get_completion_undecorated anthropic_env ''ShellGPT''
       claude_args [system_msg ''sys'', user_msg ''hello''] [Streams []] fresh_state)) =
     st_dispatched fresh_state @
       ([], (request_kwargs anthropic_env ''ShellGPT'' claude_args
               [system_msg ''sys'', user_msg ''hello''] fresh_state)
              \<lparr>kw_messages :=
                 Some (map (\<lambda>m. m\<lparr>msg_content := Blocks [(''text'', msg_content m)]\<rparr>)
                         (filter (\<lambda>m. msg_role m \<noteq> ''system'')
                            [system_msg ''sys'', user_msg ''hello''])),
               kw_system :=
                 Some (msg_content
                         (last (filter (\<lambda>m. msg_role m = ''system'')
                                  [system_msg ''sys'', user_msg ''hello''])))\<rparr>) # more"
    by blast
  from d l have "more = []" by simp
  with d show ?thesis
    by (simp add: request_kwargs_def completion_kwargs_def effective_functions_def
          claude_args_def anthropic_env_def module_env_def fresh_state_def system_msg_def
          user_msg_def)
qed

text \<open>
  C7 as stated fails. A request to that backend for another model of the vendor, or
  without a system message, is not reshaped and dispatched: the adapter raises and the
  client is not called. And a request that is dispatched has the content of its user
  message wrapped, not only that of assistant messages.
\<close>

theorem adapter_rejects_request:
  "raised (get_completion_undecorated anthropic_env ''ShellGPT'' opus_args
             [system_msg ''sys'', user_msg ''hello''] [Streams []] fresh_state) =
     Some AssertionError
   \<and> st_dispatched (state_out (get_completion_undecorated anthropic_env ''ShellGPT''
             opus_args [system_msg ''sys'', user_msg ''hello''] [Streams []] fresh_state)) = []
   \<and> raised (get_completion_undecorated anthropic_env ''ShellGPT'' claude_args
             [user_msg ''hello''] [Streams []] fresh_state) = Some TypeError
   \<and> st_dispatched (state_out (get_completion_undecorated anthropic_env ''ShellGPT''
             claude_args [user_msg ''hello''] [Streams []] fresh_state)) = []
   \<and> map (\<lambda>r. kw_messages (snd r))
       (st_dispatched (state_out (get_completion_undecorated anthropic_env ''ShellGPT''
             claude_args [system_msg ''sys'', user_msg ''hello''] [Streams []]
             fresh_state))) =
       [Some [\<lparr>msg_role = ''user'', msg_content = Blocks [(''text'', Str ''hello'')],
               msg_function_call = None, msg_name = None\<rparr>]]"
  by (simp add: get_completion_body_def completion_def adapted_def try_block_def
        except_KeyboardInterrupt_def requested_def request_kwargs_def
        adapt_parameters_to_anthropic_def anthropic_env_def module_env_def
        fresh_state_def completion_kwargs_def claude_args_def opus_args_def system_msg_def
        user_msg_def wrap_content_def Let_def)

subsection \<open>Interruption\<close>









end
